theory Spec2Isabelle
  imports Complex_Main "HOL-Library.Sublist" "HOL-Library.AList"
begin

section \<open>Strings and JSON values\<close>

text \<open>
  JavaScript strings are modelled as \<^typ>\<open>string\<close>, one \<^typ>\<open>char\<close> per code unit (so the
  model covers texts whose code units are below 256). The Cyrillic literals of the source
  (stage names, prompt headings, the placeholder document label) cannot be written in such a
  string; they are given in Latin transliteration, and the error messages of the source are
  the constructors of \<open>msg\<close> below. No property proved here looks inside these literals.
\<close>

definition includesStr :: "string \<Rightarrow> string \<Rightarrow> bool" where
  \<comment> \<open>\<open>s.includes(pat)\<close>\<close>
  "includesStr s pat = sublist pat s"

definition isSpace :: "char \<Rightarrow> bool" where
  \<comment> \<open>the class \<open>\s\<close> of a regular expression, which is also what \<open>trim()\<close> strips: its
      members below 256 (tab, line feed, vertical tab, form feed, carriage return, space,
      no-break space)\<close>
  "isSpace c = (c \<in> set [CHR 0x09, CHR 0x0A, CHR 0x0B, CHR 0x0C, CHR 0x0D, CHR 0x20, CHR 0xA0])"

definition trimStart :: "string \<Rightarrow> string" where
  "trimStart s = dropWhile isSpace s"

definition trimEnd :: "string \<Rightarrow> string" where
  "trimEnd s = rev (dropWhile isSpace (rev s))"

definition trim :: "string \<Rightarrow> string" where
  "trim s = trimEnd (trimStart s)"

datatype json =
    JNull
  | JBool bool
  | JNum real
  | JStr string
  | JArr "json list"
  | JObj "(string \<times> json) list"

fun truthy :: "json \<Rightarrow> bool" where
  "truthy JNull = False"
| "truthy (JBool b) = b"
| "truthy (JNum x) = (x \<noteq> 0)"
| "truthy (JStr s) = (s \<noteq> [])"
| "truthy (JArr xs) = True"
| "truthy (JObj kvs) = True"

fun isObject :: "json \<Rightarrow> bool" where
  \<comment> \<open>\<open>typeof v === 'object'\<close>\<close>
  "isObject JNull = True"
| "isObject (JArr xs) = True"
| "isObject (JObj kvs) = True"
| "isObject v = False"

text \<open>
  Reading a property that is not there gives \<open>undefined\<close>, modelled as \<open>None\<close>. The keys read
  by the source (\<open>level1\<close>, \<open>case_number\<close>, \<open>caseNumber\<close>) are no built-in members of arrays,
  strings, numbers or booleans.
\<close>

fun getProp :: "json \<Rightarrow> string \<Rightarrow> json option" where
  "getProp (JObj kvs) k = map_of kvs k"
| "getProp v k = None"

definition truthyOpt :: "json option \<Rightarrow> bool" where
  "truthyOpt v = (case v of None \<Rightarrow> False | Some j \<Rightarrow> truthy j)"

datatype msg =
    Raw string
      \<comment> \<open>the message of an error raised outside this repository\<close>
  | RuntimeTypeError
      \<comment> \<open>a \<open>TypeError\<close> of the runtime (reading a property of \<open>null\<close> or \<open>undefined\<close>,
          assigning a property to a primitive in strict mode)\<close>
  | NoApiKey
  | EmptyCompletion
  | MissingUsage
  | InvocationError msg
      \<comment> \<open>callOpenAI's prefix put before the cause's message\<close>
  | ConversionError msg
  | PromptLoadError string msg
  | NotAnObject
  | MalformedOutput msg string
      \<comment> \<open>the JSON parse failure of stage 0, with the first 500 characters of the text\<close>
  | NoLegalPosition
  | CardError msg
  | NoCards
  | SkeletonError msg
  | ReviewError msg
  | AllDocumentsFailed
  | NoCaseCards

section \<open>Model Invoker: callOpenAI (src/lib/llm-client.ts)\<close>

record ModelPricing =
  input :: real
  cached_input :: real
  "output" :: real

definition MODEL_PRICING :: "(string \<times> ModelPricing) list" where
  "MODEL_PRICING =
    [(''gpt-5-mini'', \<lparr>input = 0.25, cached_input = 0.025, output = 2.0\<rparr>),
     (''gpt-5'', \<lparr>input = 1.25, cached_input = 0.125, output = 10.0\<rparr>),
     (''gpt-5.1'', \<lparr>input = 1.25, cached_input = 0.125, output = 10.0\<rparr>),
     (''gpt-4o'', \<lparr>input = 1.25, cached_input = 0.125, output = 10.0\<rparr>)]"

definition MODEL_PRICING_FLEX :: "(string \<times> ModelPricing) list" where
  "MODEL_PRICING_FLEX =
    [(''gpt-5-mini'', \<lparr>input = 0.125, cached_input = 0.0125, output = 1.0\<rparr>),
     (''gpt-5'', \<lparr>input = 0.625, cached_input = 0.0625, output = 5.0\<rparr>),
     (''gpt-5.1'', \<lparr>input = 0.625, cached_input = 0.0625, output = 5.0\<rparr>),
     (''gpt-4o'', \<lparr>input = 0.625, cached_input = 0.0625, output = 5.0\<rparr>)]"

text \<open>
  The keys looked up are model identifiers, no names of members that every JavaScript object
  inherits. Both tables have the key \<open>gpt-5.1\<close>, so the last case below is never reached.
\<close>

definition priceOf :: "(string \<times> ModelPricing) list \<Rightarrow> string \<Rightarrow> ModelPricing" where
  \<comment> \<open>\<open>TABLE[usedModel] || TABLE['gpt-5.1']\<close>\<close>
  "priceOf table m =
     (case map_of table m of
        Some p \<Rightarrow> p
      | None \<Rightarrow> (case map_of table ''gpt-5.1'' of
                   Some p \<Rightarrow> p
                 | None \<Rightarrow> \<lparr>input = 0, cached_input = 0, output = 0\<rparr>))"

record TokenUsage =
  promptTokens :: int
  completionTokens :: int
  cachedTokens :: "int option"
  totalTokens :: int

record CostBreakdown =
  inputCost :: real
  cachedInputCost :: real
  outputCost :: real
  totalCost :: real

record APIResponse =
  content :: string
  usage :: TokenUsage
  cost :: CostBreakdown
  usedFlex :: bool
  fallbackToStandard :: bool

text \<open>
  Several interfaces of the source have a field \<open>cost\<close>, \<open>usage\<close>, \<open>error\<close>, \<open>fileName\<close>,
  \<open>input\<close>, \<open>output\<close> or \<open>total\<close>; the records keep these names, and a selector is written
  with its record's name (\<open>APIResponse.cost\<close>) where another record has the field too.
\<close>

text \<open>What the provider's client is asked (\<open>requestParams\<close>) and what it answers.\<close>

record request =
  rq_model :: string
  rq_system :: string
  rq_user :: string
  rq_flex :: bool
    \<comment> \<open>\<open>service_tier = 'flex'\<close> is set\<close>

record api_error =
  err_status :: "int option"
  err_message :: string
  err_code :: "string option"

record raw_usage =
  prompt_tokens :: "int option"
  completion_tokens :: "int option"
  cached_tokens :: "int option"
  total_tokens :: "int option"

record raw_response =
  rs_content :: "string option"
    \<comment> \<open>\<open>response.choices[0]?.message?.content\<close>\<close>
  rs_usage :: "raw_usage option"

text \<open>
  The provider is outside the repository. Its answer may change from one request to the next
  of the same call, so it is a function of the number of requests the call has sent before.
\<close>

type_synonym provider = "nat \<Rightarrow> request \<Rightarrow> api_error + raw_response"

datatype event = Sent request | Waited nat

definition sentCount :: "event list \<Rightarrow> nat" where
  "sentCount tr = length (filter (\<lambda>e. case e of Sent r \<Rightarrow> True | Waited d \<Rightarrow> False) tr)"

definition isResourceUnavailable :: "api_error \<Rightarrow> bool" where
  "isResourceUnavailable e =
     (err_status e = Some 429 \<and>
      (includesStr (err_message e) ''Resource Unavailable'' \<or>
       includesStr (err_message e) ''resource_unavailable'' \<or>
       err_code e = Some ''resource_unavailable''))"

definition isModelUnavailable :: "api_error \<Rightarrow> bool" where
  "isModelUnavailable e =
     (err_status e = Some 404 \<or> includesStr (err_message e) ''model'' \<or>
      err_code e = Some ''model_not_found'')"

definition maxRetries :: nat where
  "maxRetries = 3"

definition retryDelays :: "nat list" where
  "retryDelays = [2000, 4000, 8000]"

definition createRequest :: "string \<Rightarrow> string \<Rightarrow> string \<Rightarrow> bool \<Rightarrow> request" where
  "createRequest systemPrompt userContent usedModel flexMode =
     \<lparr>rq_model = usedModel, rq_system = systemPrompt, rq_user = userContent, rq_flex = flexMode\<rparr>"

record flex_result =
  fr_response :: "raw_response option"
  fr_actuallyUsedFlex :: bool
  fr_fallbackToStandard :: bool

text \<open>The retry loop \<open>for (attempt = 0; attempt < maxRetries; attempt++)\<close> of the flex branch.\<close>

function flexLoop :: "provider \<Rightarrow> request \<Rightarrow> nat \<Rightarrow> event list \<Rightarrow> flex_result \<times> event list" where
  "flexLoop p rq attempt tr =
     (if attempt < maxRetries then
        (case p (sentCount tr) rq of
           Inr r \<Rightarrow>
             (\<lparr>fr_response = Some r, fr_actuallyUsedFlex = True, fr_fallbackToStandard = False\<rparr>,
              tr @ [Sent rq])
         | Inl e \<Rightarrow>
             if isResourceUnavailable e then
               if attempt < maxRetries - 1 then
                 flexLoop p rq (attempt + 1) (tr @ [Sent rq, Waited (retryDelays ! attempt)])
               else
                 (\<lparr>fr_response = None, fr_actuallyUsedFlex = False, fr_fallbackToStandard = True\<rparr>,
                  tr @ [Sent rq])
             else
               (\<lparr>fr_response = None, fr_actuallyUsedFlex = False, fr_fallbackToStandard = True\<rparr>,
                tr @ [Sent rq]))
      else
        (\<lparr>fr_response = None, fr_actuallyUsedFlex = True, fr_fallbackToStandard = False\<rparr>, tr))"
  by pat_completeness auto

termination
  by (relation "measure (\<lambda>(p, rq, attempt, tr). maxRetries - attempt)") auto

declare flexLoop.simps [simp del]

text \<open>
  The standard request with its model substitution: \<open>try { createRequest(false) } catch\<close>,
  where an error that looks like a missing model sets \<open>usedModel = 'gpt-4o'\<close> and sends the
  request once more, outside any \<open>try\<close>. The result is the response with the model used, or
  the error thrown.
\<close>

definition standardRequest ::
  "provider \<Rightarrow> string \<Rightarrow> string \<Rightarrow> string \<Rightarrow> event list
     \<Rightarrow> (api_error + raw_response \<times> string) \<times> event list" where
  "standardRequest p systemPrompt userContent model tr =
     (let rq = createRequest systemPrompt userContent model False in
      case p (sentCount tr) rq of
        Inr r \<Rightarrow> (Inr (r, model), tr @ [Sent rq])
      | Inl e \<Rightarrow>
          if isModelUnavailable e then
            (let rq' = createRequest systemPrompt userContent ''gpt-4o'' False;
                 tr' = tr @ [Sent rq]
             in case p (sentCount tr') rq' of
                  Inr r \<Rightarrow> (Inr (r, ''gpt-4o''), tr' @ [Sent rq'])
                | Inl e' \<Rightarrow> (Inl e', tr' @ [Sent rq']))
          else (Inl e, tr @ [Sent rq]))"

definition orZero :: "int option \<Rightarrow> int" where
  \<comment> \<open>\<open>x || 0\<close> on a number that may be missing\<close>
  "orZero x = (case x of None \<Rightarrow> 0 | Some n \<Rightarrow> n)"

text \<open>From the response on: the checks of content and usage, the token usage and the cost.\<close>

definition finishCall :: "raw_response \<Rightarrow> string \<Rightarrow> bool \<Rightarrow> bool \<Rightarrow> msg + APIResponse" where
  "finishCall response usedModel actuallyUsedFlex fallback =
     (case rs_content response of
        None \<Rightarrow> Inl EmptyCompletion
      | Some c \<Rightarrow>
          if c = [] then Inl EmptyCompletion
          else
            (case rs_usage response of
               None \<Rightarrow> Inl MissingUsage
             | Some u \<Rightarrow>
                 (let tokenUsage =
                        \<lparr>promptTokens = orZero (prompt_tokens u),
                         completionTokens = orZero (completion_tokens u),
                         cachedTokens = Some (orZero (cached_tokens u)),
                         totalTokens = orZero (total_tokens u)\<rparr>;
                      inputTokens = promptTokens tokenUsage - orZero (cachedTokens tokenUsage);
                      cachedInputTokens = orZero (cachedTokens tokenUsage);
                      outputTokens = completionTokens tokenUsage;
                      pricing =
                        (if actuallyUsedFlex then priceOf MODEL_PRICING_FLEX usedModel
                         else priceOf MODEL_PRICING usedModel);
                      ic = (real_of_int inputTokens / 1000000) * ModelPricing.input pricing;
                      cc = (real_of_int cachedInputTokens / 1000000) * cached_input pricing;
                      oc = (real_of_int outputTokens / 1000000) * ModelPricing.output pricing
                  in Inr \<lparr>content = c, APIResponse.usage = tokenUsage,
                          APIResponse.cost =
                            \<lparr>inputCost = ic, cachedInputCost = cc, outputCost = oc,
                             totalCost = ic + cc + oc\<rparr>,
                          usedFlex = actuallyUsedFlex, fallbackToStandard = fallback\<rparr>)))"

definition thrown :: "api_error \<Rightarrow> msg" where
  \<comment> \<open>the message of an error thrown by the provider's client\<close>
  "thrown e = Raw (err_message e)"

definition wrapInvocation :: "msg + 'a \<Rightarrow> msg + 'a" where
  \<comment> \<open>the outer \<open>catch\<close> of callOpenAI\<close>
  "wrapInvocation r = (case r of Inl m \<Rightarrow> Inl (InvocationError m) | Inr v \<Rightarrow> Inr v)"

text \<open>
  \<open>callOpenAI(systemPrompt, userContent, model, useFlex)\<close>: the result (an error message or
  the response) and the requests sent and delays waited, in order. \<open>clientOk\<close> says whether
  \<open>getOpenAIClient()\<close> returns a client (one exists already, or the API key is set).
\<close>

definition callOpenAI ::
  "bool \<Rightarrow> provider \<Rightarrow> string \<Rightarrow> string \<Rightarrow> string \<Rightarrow> bool \<Rightarrow> (msg + APIResponse) \<times> event list" where
  "callOpenAI clientOk p systemPrompt userContent model useFlex =
     (if \<not> clientOk then (Inl (InvocationError NoApiKey), [])
      else if useFlex then
        (let (fr, tr) = flexLoop p (createRequest systemPrompt userContent model True) 0 [] in
         if fr_response fr = None \<and> fr_fallbackToStandard fr then
           (case standardRequest p systemPrompt userContent model tr of
              (Inr (r, usedModel), tr') \<Rightarrow>
                (wrapInvocation
                   (finishCall r usedModel (fr_actuallyUsedFlex fr) (fr_fallbackToStandard fr)), tr')
            | (Inl e, tr') \<Rightarrow> (Inl (InvocationError (thrown e)), tr'))
         else
           (case fr_response fr of
              Some r \<Rightarrow>
                (wrapInvocation
                   (finishCall r model (fr_actuallyUsedFlex fr) (fr_fallbackToStandard fr)), tr)
            | None \<Rightarrow> (Inl (InvocationError RuntimeTypeError), tr)))
      else
        (case standardRequest p systemPrompt userContent model [] of
           (Inr (r, usedModel), tr') \<Rightarrow> (wrapInvocation (finishCall r usedModel False False), tr')
         | (Inl e, tr') \<Rightarrow> (Inl (InvocationError (thrown e)), tr')))"


section \<open>Structured-output extraction (the inline code of the stage functions)\<close>

definition fence :: string where
  \<comment> \<open>three backticks\<close>
  "fence = [CHR 0x60, CHR 0x60, CHR 0x60]"

definition fenceJson :: string where
  "fenceJson = fence @ ''json''"

text \<open>
  The regular expressions \<open>/```json\s*([\s\S]*?)\s*```/\<close> and \<open>/```\s*([\s\S]*?)\s*```/\<close>, as the
  backtracking matcher runs them. \<open>matchFenced opener s\<close> is the capture group of the leftmost
  match, \<open>None\<close> when there is none. At a start where the opener stands, the greedy \<open>\s*\<close> takes
  the whole run of white space (a shorter run never helps: the closing fence starts with a
  backtick, which is no white space), and the lazy group grows one character at a time until
  what follows is white space and a fence (\<open>lazyUntilFence\<close>).
\<close>

fun lazyUntilFence :: "string \<Rightarrow> string option" where
  "lazyUntilFence [] = None"
| "lazyUntilFence (c # cs) =
     (if prefix fence (dropWhile isSpace (c # cs)) then Some []
      else map_option ((#) c) (lazyUntilFence cs))"

fun matchFenced :: "string \<Rightarrow> string \<Rightarrow> string option" where
  "matchFenced opener [] = None"
| "matchFenced opener (c # cs) =
     (if prefix opener (c # cs) then
        (case lazyUntilFence (dropWhile isSpace (drop (length opener) (c # cs))) of
           Some cap \<Rightarrow> Some cap
         | None \<Rightarrow> matchFenced opener cs)
      else matchFenced opener cs)"

definition upperChar :: "char \<Rightarrow> char" where
  \<comment> \<open>the flag \<open>i\<close> compares ASCII letters without case\<close>
  "upperChar c =
     (let n = (of_char c :: nat) in if 97 \<le> n \<and> n \<le> 122 then char_of (n - 32) else c)"

definition stripOpenerCI :: "string \<Rightarrow> string \<Rightarrow> string" where
  \<comment> \<open>\<open>s.replace(/^```json\s*/i, '')\<close> and \<open>s.replace(/^```\s*/i, '')\<close>\<close>
  "stripOpenerCI opener s =
     (if map upperChar (take (length opener) s) = map upperChar opener
      then dropWhile isSpace (drop (length opener) s) else s)"

definition stripCloser :: "string \<Rightarrow> string" where
  \<comment> \<open>\<open>s.replace(/\s*```$/i, '')\<close>: the leftmost match takes all white space before the fence\<close>
  "stripCloser s =
     (if suffix fence s then trimEnd (take (length s - length fence) s) else s)"

definition braceSpan :: "string \<Rightarrow> string option" where
  \<comment> \<open>\<open>s.match(/\{[\s\S]*\}/)\<close>: from the first opening brace to the last closing brace after it\<close>
  "braceSpan s =
     (let t = dropWhile (\<lambda>c. c \<noteq> CHR ''{'') s;
          r = rev (dropWhile (\<lambda>c. c \<noteq> CHR ''}'') (rev t))
      in if r = [] then None else Some r)"

definition orWhole :: "string \<Rightarrow> string" where
  \<comment> \<open>\<open>if (jsonObjectMatch) { text = jsonObjectMatch[0] }\<close>\<close>
  "orWhole s = (case braceSpan s of Some r \<Rightarrow> r | None \<Rightarrow> s)"

text \<open>Stage 0 (lines 158 to 182): the text handed to \<open>JSON.parse\<close>, from the model's answer.\<close>

definition step0JsonText :: "string \<Rightarrow> string" where
  "step0JsonText legalPositionRaw =
     (let t = trim legalPositionRaw;
          t' =
            (if includesStr t fenceJson then
               (case matchFenced fenceJson t of
                  Some cap \<Rightarrow> trim cap
                | None \<Rightarrow> stripCloser (stripOpenerCI fenceJson t))
             else if includesStr t fence then
               (case matchFenced fence t of
                  Some cap \<Rightarrow> trim cap
                | None \<Rightarrow> stripCloser (stripOpenerCI fence t))
             else t)
      in orWhole t')"

text \<open>Stages 1 and 3 run the same steps without the two \<open>replace\<close> calls.\<close>

definition stepJsonText :: "string \<Rightarrow> string" where
  "stepJsonText raw =
     (let t = trim raw;
          t' =
            (if includesStr t fenceJson then
               (case matchFenced fenceJson t of Some cap \<Rightarrow> trim cap | None \<Rightarrow> t)
             else if includesStr t fence then
               (case matchFenced fence t of Some cap \<Rightarrow> trim cap | None \<Rightarrow> t)
             else t)
      in orWhole t')"

section \<open>Data model of the pipeline (src/unnamed/part_004)\<close>

type_synonym buffer = "nat list"

record upload =
  fileName :: string
  buffer :: buffer

text \<open>
  \<open>LegalPosition\<close>, \<open>CaseCard\<close> and \<open>ReviewSkeleton\<close> are only type assertions on what
  \<open>JSON.parse\<close> returns, so their values are \<^typ>\<open>json\<close>; an optional field is an \<open>option\<close>
  (\<open>None\<close> for \<open>undefined\<close>). Every error message the code attaches is a non-empty string (it
  carries a prefix of the code), so \<open>error\<close> is truthy exactly when it is \<open>Some\<close>.
\<close>

record DocumentProcessingResult =
  fileName :: string
  caseNumber :: "json option"
  markdown :: string
  legalPosition :: string
  legalPositionParsed :: "json option"
  caseCard :: "json option"
  caseCardRaw :: "string option"
  error :: "msg option"

record 'a StageOutput =
  result :: 'a
    \<comment> \<open>\<open>result\<close> in stages 0 and 1, \<open>skeleton\<close> in stage 3, \<open>review\<close> in stage 4\<close>
  cost :: CostBreakdown
  usage :: TokenUsage

record 'n amounts =
  input :: 'n
  cachedInput :: 'n
  "output" :: 'n
  total :: 'n

record totals =
  tokens :: "int amounts"
  cost :: "real amounts"

record StepCostStatistics = totals +
  step :: nat
  stepName :: string
  model :: "string option"
  calls :: nat

record CostStatistics =
  steps :: "StepCostStatistics list"
  total :: totals

record PipelineResult =
  documents :: "DocumentProcessingResult list"
  caseCards :: "json list"
  reviewSkeleton :: "json option"
  review :: string
  costStatistics :: "CostStatistics option"
  error :: "msg option"

section \<open>Collaborators outside the repository\<close>

datatype callsite = AtStep0 nat | AtStep1 nat | AtStep3 | AtStep4

text \<open>
  What the run gets from outside: the converter (\<open>mammoth.convertToMarkdown\<close>, \<open>Inl\<close> the
  message it throws), the prompt files as \<open>loadPromptWithParts\<close> splits them (\<open>Inl\<close> the message
  of a failed read), the provider behind each call of \<open>callOpenAI\<close> (one per stage call, since
  the same request may be answered differently), \<open>JSON.parse\<close> (\<open>Inl\<close> the message of its
  \<open>SyntaxError\<close>), \<open>JSON.stringify(v, null, 2)\<close>, and the file system under \<open>saveResults\<close>,
  which only writes files (\<open>Some\<close> the message of the error it throws).
\<close>

record env =
  clientOk :: bool
  convertToMarkdown :: "buffer \<Rightarrow> string + string"
  readPromptParts :: "string \<Rightarrow> string + string \<times> string"
  llm :: "callsite \<Rightarrow> provider"
  JSON_parse :: "string \<Rightarrow> string + json"
  JSON_stringify :: "json \<Rightarrow> string"
  saveResults :: "DocumentProcessingResult list \<Rightarrow> json \<Rightarrow> string \<Rightarrow> string option"

definition convertDocxBufferToMarkdown :: "env \<Rightarrow> buffer \<Rightarrow> msg + string" where
  "convertDocxBufferToMarkdown env b =
     (case convertToMarkdown env b of
        Inl m \<Rightarrow> Inl (ConversionError (Raw m))
      | Inr v \<Rightarrow> Inr v)"

definition loadPromptWithParts :: "env \<Rightarrow> string \<Rightarrow> msg + string \<times> string" where
  "loadPromptWithParts env promptPath =
     (case readPromptParts env promptPath of
        Inl m \<Rightarrow> Inl (PromptLoadError promptPath (Raw m))
      | Inr parts \<Rightarrow> Inr parts)"

definition invoke :: "env \<Rightarrow> callsite \<Rightarrow> string \<Rightarrow> string \<Rightarrow> string \<Rightarrow> msg + APIResponse" where
  \<comment> \<open>\<open>callOpenAI(systemPrompt, userContent, model)\<close>: \<open>useFlex\<close> takes its default, false\<close>
  "invoke env site systemPrompt userContent m =
     fst (callOpenAI (clientOk env) (llm env site) systemPrompt userContent m False)"

section \<open>Stage functions\<close>

definition zeroCost :: CostBreakdown where
  "zeroCost = \<lparr>inputCost = 0, cachedInputCost = 0, outputCost = 0, totalCost = 0\<rparr>"

definition zeroUsage :: TokenUsage where
  "zeroUsage = \<lparr>promptTokens = 0, completionTokens = 0, cachedTokens = None, totalTokens = 0\<rparr>"

definition orEmpty :: "json option \<Rightarrow> json" where
  \<comment> \<open>\<open>v || ''\<close>\<close>
  "orEmpty v = (case v of None \<Rightarrow> JStr [] | Some j \<Rightarrow> if truthy j then j else JStr [])"

definition optProp :: "json option \<Rightarrow> string \<Rightarrow> json option" where
  \<comment> \<open>\<open>v?.k\<close>\<close>
  "optProp v k = (case v of None \<Rightarrow> None | Some JNull \<Rightarrow> None | Some j \<Rightarrow> getProp j k)"

text \<open>
  Lines 158 to 200 of stage 0: the text is cut out of the answer, parsed and checked to be an
  object; any failure is thrown again with the first 500 characters of the text.
\<close>

definition step0Parse :: "env \<Rightarrow> string \<Rightarrow> msg + string \<times> json" where
  "step0Parse env legalPositionRaw =
     (let legalPositionJson = step0JsonText legalPositionRaw in
      case JSON_parse env legalPositionJson of
        Inl m \<Rightarrow> Inl (MalformedOutput (Raw m) (take 500 legalPositionJson))
      | Inr parsed \<Rightarrow>
          if \<not> truthy parsed \<or> \<not> isObject parsed
          then Inl (MalformedOutput NotAnObject (take 500 legalPositionJson))
          else Inr (legalPositionJson, parsed))"

text \<open>The \<open>try\<close> block of \<open>processDocumentStep0\<close>; \<open>Inl\<close> is the message of what it throws.\<close>

definition step0Try ::
  "env \<Rightarrow> nat \<Rightarrow> string \<Rightarrow> buffer \<Rightarrow> msg + DocumentProcessingResult StageOutput" where
  "step0Try env i name b =
     (case convertDocxBufferToMarkdown env b of
        Inl m \<Rightarrow> Inl m
      | Inr md \<Rightarrow>
     (case loadPromptWithParts env ''prompts/step0-prompt.md'' of
        Inl m \<Rightarrow> Inl m
      | Inr (systemPrompt, userPrompt) \<Rightarrow>
     (let userContent = (if userPrompt \<noteq> [] then userPrompt @ ''\<newline>\<newline>'' @ md else md) in
      case invoke env (AtStep0 i) systemPrompt userContent ''x-ai/grok-4.1-fast'' of
        Inl m \<Rightarrow> Inl m
      | Inr apiResponse \<Rightarrow>
     (case step0Parse env (content apiResponse) of
        Inl m \<Rightarrow> Inl m
      | Inr (legalPositionJson, parsed) \<Rightarrow>
          Inr \<lparr>result =
                 \<lparr>DocumentProcessingResult.fileName = name,
                  caseNumber =
                    Some (orEmpty (optProp (optProp (Some parsed) ''level1'') ''case_number'')),
                  markdown = md,
                  legalPosition = legalPositionJson,
                  legalPositionParsed = Some parsed,
                  caseCard = None,
                  caseCardRaw = None,
                  DocumentProcessingResult.error = None\<rparr>,
               StageOutput.cost = APIResponse.cost apiResponse,
               usage = APIResponse.usage apiResponse\<rparr>))))"

definition processDocumentStep0 ::
  "env \<Rightarrow> nat \<Rightarrow> string \<Rightarrow> buffer \<Rightarrow> DocumentProcessingResult StageOutput" where
  "processDocumentStep0 env i name b =
     (case step0Try env i name b of
        Inr out \<Rightarrow> out
      | Inl m \<Rightarrow>
          \<lparr>result =
             \<lparr>DocumentProcessingResult.fileName = name,
              caseNumber = None,
              markdown = [],
              legalPosition = [],
              legalPositionParsed = None,
              caseCard = None,
              caseCardRaw = None,
              DocumentProcessingResult.error = Some m\<rparr>,
           StageOutput.cost = zeroCost,
           usage = zeroUsage\<rparr>)"

text \<open>
  \<open>if (!caseCard.caseNumber && document.caseNumber) caseCard.caseNumber = document.caseNumber\<close>
  on whatever \<open>JSON.parse\<close> returned. Reading a property of \<open>null\<close> throws; so does, in the
  strict mode of a module, assigning a property to a number, a string or a boolean. An array
  takes the property without it becoming an element, which the model does not record.
\<close>

definition injectCaseNumber :: "json \<Rightarrow> json option \<Rightarrow> msg + json" where
  "injectCaseNumber theCard docNumber =
     (if theCard = JNull then Inl RuntimeTypeError
      else if \<not> truthyOpt (getProp theCard ''caseNumber'') \<and> truthyOpt docNumber then
        (case (theCard, docNumber) of
           (JObj kvs, Some n) \<Rightarrow> Inr (JObj (AList.update ''caseNumber'' n kvs))
         | (JArr xs, _) \<Rightarrow> Inr (JArr xs)
         | _ \<Rightarrow> Inl RuntimeTypeError)
      else Inr theCard)"

definition fencedJson :: "string \<Rightarrow> string" where
  "fencedJson j = fenceJson @ ''\<newline>'' @ j @ ''\<newline>'' @ fence"

definition step1Try ::
  "env \<Rightarrow> nat \<Rightarrow> DocumentProcessingResult \<Rightarrow> json \<Rightarrow> msg + DocumentProcessingResult StageOutput" where
  "step1Try env i document position =
     (case loadPromptWithParts env ''prompts/step1-prompt.md'' of
        Inl m \<Rightarrow> Inl m
      | Inr (systemPrompt, userPrompt) \<Rightarrow>
     (let positionJson = JSON_stringify env position;
          userContent =
            (if userPrompt \<noteq> [] then userPrompt @ ''\<newline>\<newline>'' @ fencedJson positionJson
             else positionJson)
      in
      case invoke env (AtStep1 i) systemPrompt userContent
             ''google/gemini-2.5-flash-lite-preview-09-2025'' of
        Inl m \<Rightarrow> Inl m
      | Inr apiResponse \<Rightarrow>
     (let caseCardJson = stepJsonText (content apiResponse) in
      case JSON_parse env caseCardJson of
        Inl m \<Rightarrow> Inl (Raw m)
      | Inr parsed \<Rightarrow>
     (case injectCaseNumber parsed (caseNumber document) of
        Inl m \<Rightarrow> Inl m
      | Inr theCard \<Rightarrow>
          Inr \<lparr>result = document\<lparr>caseCard := Some theCard, caseCardRaw := Some caseCardJson\<rparr>,
               StageOutput.cost = APIResponse.cost apiResponse,
               usage = APIResponse.usage apiResponse\<rparr>))))"

definition processStep1 ::
  "env \<Rightarrow> nat \<Rightarrow> DocumentProcessingResult \<Rightarrow> DocumentProcessingResult StageOutput" where
  "processStep1 env i document =
     (case legalPositionParsed document of
        None \<Rightarrow>
          \<lparr>result = document\<lparr>DocumentProcessingResult.error := Some NoLegalPosition\<rparr>,
           StageOutput.cost = zeroCost, usage = zeroUsage\<rparr>
      | Some position \<Rightarrow>
          if \<not> truthy position then
            \<lparr>result = document\<lparr>DocumentProcessingResult.error := Some NoLegalPosition\<rparr>,
             StageOutput.cost = zeroCost, usage = zeroUsage\<rparr>
          else
            (case step1Try env i document position of
               Inr out \<Rightarrow> out
             | Inl m \<Rightarrow>
                 \<lparr>result = document\<lparr>DocumentProcessingResult.error := Some (CardError m)\<rparr>,
                  StageOutput.cost = zeroCost, usage = zeroUsage\<rparr>))"

definition processStep2 :: "json list \<Rightarrow> json list" where
  "processStep2 cards = cards"

text \<open>
  Stages 3 and 4 label each card: \<open>{index, fileName, caseNumber, ...card}\<close>. The spread copies
  the card's own properties over the three labels (for an array or a string these are its
  indices), so a card that has a property \<open>caseNumber\<close>, \<open>fileName\<close> or \<open>index\<close> keeps its own.
\<close>

definition digitChar :: "nat \<Rightarrow> char" where
  "digitChar d = char_of (48 + d)"

fun showNat :: "nat \<Rightarrow> string" where
  "showNat n = (if n < 10 then [digitChar n] else showNat (n div 10) @ [digitChar (n mod 10)])"

declare showNat.simps [simp del]

fun ownProps :: "json \<Rightarrow> (string \<times> json) list" where
  "ownProps (JObj kvs) = kvs"
| "ownProps (JArr xs) = map (\<lambda>(i, x). (showNat i, x)) (enumerate 0 xs)"
| "ownProps (JStr s) = map (\<lambda>(i, c). (showNat i, JStr [c])) (enumerate 0 s)"
| "ownProps v = []"

definition nthOpt :: "'a list \<Rightarrow> nat \<Rightarrow> 'a option" where
  \<comment> \<open>\<open>xs[i]\<close>, \<open>undefined\<close> out of range\<close>
  "nthOpt xs i = (if i < length xs then Some (xs ! i) else None)"

definition docLabel :: "nat \<Rightarrow> string" where
  "docLabel n = ''Dokument '' @ showNat n"

definition labelFileName :: "DocumentProcessingResult list \<Rightarrow> nat \<Rightarrow> string" where
  \<comment> \<open>\<open>documents[index]?.fileName || `Dokument ${index + 1}`\<close>\<close>
  "labelFileName docs index =
     (case nthOpt docs index of
        Some d \<Rightarrow> if DocumentProcessingResult.fileName d \<noteq> []
                  then DocumentProcessingResult.fileName d else docLabel (index + 1)
      | None \<Rightarrow> docLabel (index + 1))"

definition labelCaseNumber :: "DocumentProcessingResult list \<Rightarrow> nat \<Rightarrow> json \<Rightarrow> json" where
  \<comment> \<open>\<open>documents[index]?.caseNumber || card.caseNumber || ''\<close>\<close>
  "labelCaseNumber docs index theCard =
     (let n = (case nthOpt docs index of Some d \<Rightarrow> caseNumber d | None \<Rightarrow> None) in
      if truthyOpt n then orEmpty n else orEmpty (getProp theCard ''caseNumber''))"

definition cardEntry :: "DocumentProcessingResult list \<Rightarrow> nat \<Rightarrow> json \<Rightarrow> json" where
  "cardEntry docs index theCard =
     JObj (fold (\<lambda>(k, v). AList.update k v) (ownProps theCard)
             [(''index'', JNum (real (index + 1))),
              (''fileName'', JStr (labelFileName docs index)),
              (''caseNumber'', labelCaseNumber docs index theCard)])"

definition cardsData :: "json list \<Rightarrow> DocumentProcessingResult list \<Rightarrow> json list" where
  \<comment> \<open>\<open>caseCards.map((card, index) => ...)\<close>\<close>
  "cardsData cards docs = map (\<lambda>(index, c). cardEntry docs index c) (enumerate 0 cards)"

definition step3Try ::
  "env \<Rightarrow> json list \<Rightarrow> DocumentProcessingResult list \<Rightarrow> msg + json StageOutput" where
  "step3Try env cards docs =
     (case loadPromptWithParts env ''prompts/step3-prompt.md'' of
        Inl m \<Rightarrow> Inl m
      | Inr (systemPrompt, userPrompt) \<Rightarrow>
     (let cardsJson = JSON_stringify env (JArr (cardsData cards docs));
          userContent =
            (if userPrompt \<noteq> [] then userPrompt @ ''\<newline>\<newline>'' @ fencedJson cardsJson
             else cardsJson)
      in
      case invoke env AtStep3 systemPrompt userContent ''deepseek/deepseek-v3.2'' of
        Inl m \<Rightarrow> Inl m
      | Inr apiResponse \<Rightarrow>
     (let skeletonJson = stepJsonText (content apiResponse) in
      case JSON_parse env skeletonJson of
        Inl m \<Rightarrow> Inl (Raw m)
      | Inr skeleton \<Rightarrow>
          Inr \<lparr>result = skeleton,
               StageOutput.cost = APIResponse.cost apiResponse,
               usage = APIResponse.usage apiResponse\<rparr>)))"

definition processStep3 ::
  "env \<Rightarrow> json list \<Rightarrow> DocumentProcessingResult list \<Rightarrow> msg + json StageOutput" where
  "processStep3 env cards docs =
     (if cards = [] then Inl NoCards
      else (case step3Try env cards docs of
              Inl m \<Rightarrow> Inl (SkeletonError m)
            | Inr out \<Rightarrow> Inr out))"

definition step4Try ::
  "env \<Rightarrow> json \<Rightarrow> json list \<Rightarrow> DocumentProcessingResult list \<Rightarrow> msg + string StageOutput" where
  "step4Try env skeleton cards docs =
     (case loadPromptWithParts env ''prompts/step4-prompt.md'' of
        Inl m \<Rightarrow> Inl m
      | Inr (systemPrompt, userPrompt) \<Rightarrow>
     (let skeletonJson = JSON_stringify env skeleton;
          cardsJson = JSON_stringify env (JArr (cardsData cards docs));
          userContent =
            (if userPrompt \<noteq> [] then
               userPrompt @ ''\<newline>\<newline>## Skelet obzora:\<newline>'' @ fencedJson skeletonJson @
               ''\<newline>\<newline>## Kartochki del:\<newline>'' @ fencedJson cardsJson
             else
               ''Skelet obzora:\<newline>'' @ skeletonJson @ ''\<newline>\<newline>Kartochki del:\<newline>'' @ cardsJson)
      in
      case invoke env AtStep4 systemPrompt userContent
             ''google/gemini-2.5-flash-preview-09-2025'' of
        Inl m \<Rightarrow> Inl m
      | Inr apiResponse \<Rightarrow>
          Inr \<lparr>result = content apiResponse,
               StageOutput.cost = APIResponse.cost apiResponse,
               usage = APIResponse.usage apiResponse\<rparr>))"

definition processStep4 ::
  "env \<Rightarrow> json \<Rightarrow> json list \<Rightarrow> DocumentProcessingResult list \<Rightarrow> msg + string StageOutput" where
  "processStep4 env skeleton cards docs =
     (case step4Try env skeleton cards docs of
        Inl m \<Rightarrow> Inl (ReviewError m)
      | Inr out \<Rightarrow> Inr out)"

section \<open>Pipeline orchestrator and cost accounting\<close>

definition zeroTokens :: "int amounts" where
  "zeroTokens = \<lparr>input = 0, cachedInput = 0, output = 0, total = 0\<rparr>"

definition zeroMoney :: "real amounts" where
  "zeroMoney = \<lparr>input = 0, cachedInput = 0, output = 0, total = 0\<rparr>"

definition usageTokens :: "TokenUsage \<Rightarrow> int amounts" where
  \<comment> \<open>the four token numbers the code derives from one \<open>usage\<close>\<close>
  "usageTokens u =
     \<lparr>input = promptTokens u - orZero (cachedTokens u),
      cachedInput = orZero (cachedTokens u),
      output = completionTokens u,
      total = totalTokens u\<rparr>"

definition costMoney :: "CostBreakdown \<Rightarrow> real amounts" where
  "costMoney c =
     \<lparr>input = inputCost c, cachedInput = cachedInputCost c, output = outputCost c,
      total = totalCost c\<rparr>"

definition plusAmounts :: "('n::plus) amounts \<Rightarrow> 'n amounts \<Rightarrow> 'n amounts" where
  \<comment> \<open>the four \<open>+=\<close> of a loop body, \<open>a\<close> the running sums\<close>
  "plusAmounts a b =
     \<lparr>input = input a + input b,
      cachedInput = cachedInput a + cachedInput b,
      output = amounts.output a + amounts.output b,
      total = amounts.total a + amounts.total b\<rparr>"

definition addCall :: "'a StageOutput \<Rightarrow> StepCostStatistics \<Rightarrow> StepCostStatistics" where
  \<comment> \<open>the body of \<open>step0Results.forEach\<close> and \<open>step1Results.forEach\<close>\<close>
  "addCall r st =
     st\<lparr>tokens := plusAmounts (tokens st) (usageTokens (StageOutput.usage r)),
        totals.cost := plusAmounts (totals.cost st) (costMoney (StageOutput.cost r))\<rparr>"

definition fanOutStats ::
  "nat \<Rightarrow> string \<Rightarrow> string \<Rightarrow> 'a StageOutput list \<Rightarrow> StepCostStatistics" where
  "fanOutStats n name m results =
     fold addCall results
       \<lparr>tokens = zeroTokens, totals.cost = zeroMoney,
        step = n, stepName = name, model = Some m, calls = length results\<rparr>"

definition singleCallStats :: "nat \<Rightarrow> string \<Rightarrow> string \<Rightarrow> 'a StageOutput \<Rightarrow> StepCostStatistics" where
  "singleCallStats n name m r =
     \<lparr>tokens = usageTokens (StageOutput.usage r), totals.cost = costMoney (StageOutput.cost r),
      step = n, stepName = name, model = Some m, calls = 1\<rparr>"

definition addStep :: "StepCostStatistics \<Rightarrow> totals \<Rightarrow> totals" where
  \<comment> \<open>the body of \<open>costStatistics.steps.forEach\<close>\<close>
  "addStep st t =
     t\<lparr>tokens := plusAmounts (tokens t) (tokens st),
       totals.cost := plusAmounts (totals.cost t) (totals.cost st)\<rparr>"

definition zeroTotals :: totals where
  "zeroTotals = \<lparr>tokens = zeroTokens, totals.cost = zeroMoney\<rparr>"

definition usable :: "DocumentProcessingResult \<Rightarrow> bool" where
  \<comment> \<open>\<open>!doc.error && doc.legalPositionParsed\<close>\<close>
  "usable doc =
     (DocumentProcessingResult.error doc = None \<and> truthyOpt (legalPositionParsed doc))"

definition mergeByName ::
  "DocumentProcessingResult list \<Rightarrow> DocumentProcessingResult list \<Rightarrow> DocumentProcessingResult list"
  where
  \<comment> \<open>\<open>documents.map((doc) => documentsWithCards.find((d) => d.fileName === doc.fileName) || doc)\<close>\<close>
  "mergeByName docs documentsWithCards =
     map (\<lambda>doc.
            case find (\<lambda>d. DocumentProcessingResult.fileName d =
                            DocumentProcessingResult.fileName doc) documentsWithCards of
              Some withCard \<Rightarrow> withCard
            | None \<Rightarrow> doc) docs"

definition cardsOf :: "DocumentProcessingResult list \<Rightarrow> json list" where
  \<comment> \<open>\<open>updatedDocuments.filter((doc) => doc.caseCard).map((doc) => doc.caseCard!)\<close>\<close>
  "cardsOf docs =
     concat (map (\<lambda>doc. case caseCard doc of
                           Some c \<Rightarrow> if truthy c then [c] else []
                         | None \<Rightarrow> []) docs)"

definition step0Results :: "env \<Rightarrow> upload list \<Rightarrow> DocumentProcessingResult StageOutput list" where
  "step0Results env files =
     map (\<lambda>(index, file). processDocumentStep0 env index (upload.fileName file) (buffer file))
       (enumerate 0 files)"

definition step1Results ::
  "env \<Rightarrow> DocumentProcessingResult list \<Rightarrow> DocumentProcessingResult StageOutput list" where
  "step1Results env docs =
     map (\<lambda>(index, doc). processStep1 env index doc) (enumerate 0 (filter usable docs))"

definition stepName0 :: string where "stepName0 = ''Izvlechenie pravovykh pozitsii''"

definition stepName1 :: string where "stepName1 = ''Sozdanie kartochek del''"

definition stepName3 :: string where "stepName3 = ''Sozdanie skeleta obzora''"

definition stepName4 :: string where "stepName4 = ''Generatsiya finalnogo obzora''"

text \<open>
  The \<open>try\<close> block of \<open>processDocumentsPipeline\<close>, called without \<open>onProgress\<close>. \<open>Inr\<close> is what
  it returns, \<open>Inl\<close> the message of what it throws: stage 3, stage 4 or \<open>saveResults\<close> (the
  stage functions 0 and 1 catch their own errors).
\<close>

definition pipelineTry :: "env \<Rightarrow> upload list \<Rightarrow> msg + PipelineResult" where
  "pipelineTry env files =
     (let s0 = step0Results env files;
          docs = map result s0;
          step0Stats = fanOutStats 0 stepName0 ''x-ai/grok-4.1-fast'' s0
      in
      if \<not> list_ex usable docs then
        Inr \<lparr>documents = docs, caseCards = [], reviewSkeleton = None, review = [],
             costStatistics =
               Some \<lparr>steps = [step0Stats],
                     total =
                       \<lparr>tokens =
                          \<lparr>input = input (tokens step0Stats),
                           cachedInput = cachedInput (tokens step0Stats),
                           output = amounts.output (tokens step0Stats),
                           total = amounts.total (tokens step0Stats)\<rparr>,
                        totals.cost = totals.cost step0Stats\<rparr>\<rparr>,
             error = Some AllDocumentsFailed\<rparr>
      else
     (let s1 = step1Results env docs;
          documentsWithCards = map result s1;
          updatedDocuments = mergeByName docs documentsWithCards;
          step1Stats =
            fanOutStats 1 stepName1 ''google/gemini-2.5-flash-lite-preview-09-2025'' s1;
          cards = cardsOf updatedDocuments
      in
      if cards = [] then
        Inr \<lparr>documents = updatedDocuments, caseCards = [], reviewSkeleton = None, review = [],
             costStatistics =
               Some \<lparr>steps = [step0Stats, step1Stats],
                     total =
                       \<lparr>tokens = plusAmounts (tokens step0Stats) (tokens step1Stats),
                        totals.cost =
                          plusAmounts (totals.cost step0Stats) (totals.cost step1Stats)\<rparr>\<rparr>,
             error = Some NoCaseCards\<rparr>
      else
     (let groupedCards = processStep2 cards in
      case processStep3 env groupedCards updatedDocuments of
        Inl m \<Rightarrow> Inl m
      | Inr step3Result \<Rightarrow>
     (let skeleton = result step3Result;
          step3Stats = singleCallStats 3 stepName3 ''deepseek/deepseek-v3.2'' step3Result
      in
      case processStep4 env skeleton groupedCards updatedDocuments of
        Inl m \<Rightarrow> Inl m
      | Inr step4Result \<Rightarrow>
     (let reviewText = result step4Result;
          step4Stats =
            singleCallStats 4 stepName4 ''google/gemini-2.5-flash-preview-09-2025'' step4Result;
          allSteps = [step0Stats, step1Stats, step3Stats, step4Stats]
      in
      case saveResults env updatedDocuments skeleton reviewText of
        Some m \<Rightarrow> Inl (Raw m)
      | None \<Rightarrow>
          Inr \<lparr>documents = updatedDocuments, caseCards = groupedCards,
               reviewSkeleton = Some skeleton, review = reviewText,
               costStatistics = Some \<lparr>steps = allSteps, total = fold addStep allSteps zeroTotals\<rparr>,
               error = None\<rparr>)))))"

definition processDocumentsPipeline :: "env \<Rightarrow> upload list \<Rightarrow> PipelineResult" where
  "processDocumentsPipeline env files =
     (case pipelineTry env files of
        Inr r \<Rightarrow> r
      | Inl m \<Rightarrow>
          \<lparr>documents = [], caseCards = [], reviewSkeleton = None, review = [],
           costStatistics = Some \<lparr>steps = [], total = zeroTotals\<rparr>,
           error = Some m\<rparr>)"

text \<open>Names for the intermediate values of a run, as the pipeline computes them.\<close>

definition documentsAfterS0 :: "env \<Rightarrow> upload list \<Rightarrow> DocumentProcessingResult list" where
  \<comment> \<open>the variable \<open>documents\<close> of the pipeline\<close>
  "documentsAfterS0 env files = map result (step0Results env files)"

definition updatedDocuments :: "env \<Rightarrow> upload list \<Rightarrow> DocumentProcessingResult list" where
  \<comment> \<open>the variable \<open>updatedDocuments\<close> of the pipeline\<close>
  "updatedDocuments env files =
     mergeByName (documentsAfterS0 env files)
       (map result (step1Results env (documentsAfterS0 env files)))"

definition reachesS2 :: "env \<Rightarrow> upload list \<Rightarrow> bool" where
  \<comment> \<open>neither early return is taken\<close>
  "reachesS2 env files =
     (list_ex usable (documentsAfterS0 env files) \<and> cardsOf (updatedDocuments env files) \<noteq> [])"

definition abortedResult :: "msg \<Rightarrow> PipelineResult" where
  \<comment> \<open>what the \<open>catch\<close> of the pipeline returns\<close>
  "abortedResult m =
     \<lparr>documents = [], caseCards = [], reviewSkeleton = None, review = [],
      costStatistics = Some \<lparr>steps = [], total = zeroTotals\<rparr>, error = Some m\<rparr>"

definition aborted :: "env \<Rightarrow> upload list \<Rightarrow> bool" where
  \<comment> \<open>the \<open>try\<close> block throws (stage 3, stage 4 or \<open>saveResults\<close>), so the \<open>catch\<close> answers\<close>
  "aborted env files = isl (pipelineTry env files)"

section \<open>Example inputs\<close>


definition serverError :: api_error where
  "serverError = \<lparr>err_status = Some 500, err_message = ''Internal server error'', err_code = None\<rparr>"

definition someUsage :: raw_usage where
  "someUsage =
     \<lparr>prompt_tokens = Some 1000, completion_tokens = Some 200, cached_tokens = Some 400,
      total_tokens = Some 1200\<rparr>"

definition goodResponse :: raw_response where
  "goodResponse = \<lparr>rs_content = Some ''ok'', rs_usage = Some someUsage\<rparr>"

definition failingUntil :: "nat \<Rightarrow> api_error \<Rightarrow> provider" where
  \<comment> \<open>the first \<open>k\<close> requests are answered with the error, the later ones with \<open>goodResponse\<close>\<close>
  "failingUntil k e n rq = (if n < k then Inl e else Inr goodResponse)"







definition answerWith :: "string \<Rightarrow> provider" where
  "answerWith text n rq = Inr \<lparr>rs_content = Some text, rs_usage = Some someUsage\<rparr>"

definition demoParse :: "string \<Rightarrow> string + json" where
  \<comment> \<open>\<open>JSON.parse\<close> on the texts of the examples; any other text is taken as malformed\<close>
  \<open>demoParse s =
     (if s = ''{}'' then Inr (JObj [])
      else if s = ''{"level1":{"case_number":"A-1"}}''
        then Inr (JObj [(''level1'', JObj [(''case_number'', JStr ''A-1'')])])
      else if s = ''{"summary":"s"}'' then Inr (JObj [(''summary'', JStr ''s'')])
      else if s = ''{"legalQuestion":"q"}'' then Inr (JObj [(''legalQuestion'', JStr ''q'')])
      else if s = ''{"a":"```"}'' then Inr (JObj [(''a'', JStr ''```'')])
      else Inl ''Unexpected token'')\<close>

definition demoEnv :: "(callsite \<Rightarrow> provider) \<Rightarrow> env" where
  "demoEnv providers =
     \<lparr>clientOk = True,
      convertToMarkdown = (\<lambda>b. if b = [] then Inl ''not a docx file'' else Inr ''Decision text''),
      readPromptParts = (\<lambda>path. Inr (''system'', ''user'')),
      llm = providers,
      JSON_parse = demoParse,
      JSON_stringify = (\<lambda>j. ''{}''),
      saveResults = (\<lambda>docs skeleton reviewText. None)\<rparr>"

definition allAnswering :: "callsite \<Rightarrow> provider" where
  \<open>allAnswering site =
     (case site of
        AtStep0 i \<Rightarrow> answerWith ''{}''
      | AtStep1 k \<Rightarrow> answerWith ''{"summary":"s"}''
      | AtStep3 \<Rightarrow> answerWith ''{"legalQuestion":"q"}''
      | AtStep4 \<Rightarrow> answerWith ''Review text'')\<close>

definition skeletonFailing :: "callsite \<Rightarrow> provider" where
  "skeletonFailing site =
     (case site of AtStep3 \<Rightarrow> failingUntil 1 serverError | _ \<Rightarrow> allAnswering site)"

definition reviewFailing :: "callsite \<Rightarrow> provider" where
  "reviewFailing site =
     (case site of AtStep4 \<Rightarrow> failingUntil 1 serverError | _ \<Rightarrow> allAnswering site)"

definition firstCardFailing :: "callsite \<Rightarrow> provider" where
  \<open>firstCardFailing site =
     (case site of
        AtStep0 i \<Rightarrow>
          if i = 0 then answerWith ''{"level1":{"case_number":"A-1"}}'' else answerWith ''{}''
      | AtStep1 k \<Rightarrow>
          if k = 0 then failingUntil 1 serverError else answerWith ''{"summary":"s"}''
      | _ \<Rightarrow> allAnswering site)\<close>

definition numbered :: "callsite \<Rightarrow> provider" where
  \<open>numbered site =
     (case site of
        AtStep0 i \<Rightarrow>
          if i = 0 then answerWith ''{}'' else answerWith ''{"level1":{"case_number":"A-1"}}''
      | _ \<Rightarrow> allAnswering site)\<close>

definition threeFiles :: "upload list" where
  "threeFiles =
     [\<lparr>upload.fileName = ''a.docx'', buffer = [1]\<rparr>,
      \<lparr>upload.fileName = ''b.docx'', buffer = []\<rparr>,
      \<lparr>upload.fileName = ''c.docx'', buffer = [1]\<rparr>]"

definition brokenFiles :: "upload list" where
  "brokenFiles =
     [\<lparr>upload.fileName = ''a.docx'', buffer = []\<rparr>,
      \<lparr>upload.fileName = ''b.docx'', buffer = []\<rparr>]"

definition twoFiles :: "upload list" where
  "twoFiles =
     [\<lparr>upload.fileName = ''a.docx'', buffer = [1]\<rparr>,
      \<lparr>upload.fileName = ''b.docx'', buffer = [2]\<rparr>]"

definition namesakes :: "upload list" where
  "namesakes =
     [\<lparr>upload.fileName = ''a.docx'', buffer = []\<rparr>,
      \<lparr>upload.fileName = ''a.docx'', buffer = [1]\<rparr>]"

definition twins :: "upload list" where
  "twins =
     [\<lparr>upload.fileName = ''a.docx'', buffer = [1]\<rparr>,
      \<lparr>upload.fileName = ''a.docx'', buffer = [2]\<rparr>]"


section \<open>Properties of the Model Invoker\<close>

























section \<open>Properties of the pipeline\<close>

lemma fileName_step0 [simp]:
  "DocumentProcessingResult.fileName (result (processDocumentStep0 env i n b)) = n"
  by (auto simp: processDocumentStep0_def step0Try_def step0Parse_def Let_def
      split: sum.splits prod.splits if_splits)

lemma usable_step0:
  "usable (result (processDocumentStep0 env i n b)) \<longleftrightarrow> \<not> isl (step0Try env i n b)"
  by (auto simp: processDocumentStep0_def step0Try_def step0Parse_def Let_def usable_def
      truthyOpt_def split: sum.splits prod.splits if_splits)


lemma fileName_step1 [simp]:
  "DocumentProcessingResult.fileName (result (processStep1 env k d)) =
   DocumentProcessingResult.fileName d"
  by (auto simp: processStep1_def step1Try_def Let_def split: sum.splits prod.splits option.splits)

lemma length_step0Results [simp]: "length (step0Results env files) = length files"
  by (simp add: step0Results_def)



lemma nth_step0Results:
  "i < length files \<Longrightarrow>
   step0Results env files ! i =
     processDocumentStep0 env i (upload.fileName (files ! i)) (buffer (files ! i))"
  by (simp add: step0Results_def nth_enumerate_eq)

lemma usable_after_S0:
  "list_ex usable (documentsAfterS0 env files) \<longleftrightarrow>
   (\<exists>i<length files. \<not> isl (step0Try env i (upload.fileName (files ! i)) (buffer (files ! i))))"
proof -
  have "list_ex usable (documentsAfterS0 env files) \<longleftrightarrow>
        (\<exists>i<length files. usable (result (step0Results env files ! i)))"
    by (auto simp: documentsAfterS0_def list_ex_length)
  then show ?thesis by (auto simp: nth_step0Results usable_step0)
qed

lemma pipeline_aborted_S3:
  "reachesS2 env files \<Longrightarrow>
   processStep3 env (cardsOf (updatedDocuments env files)) (updatedDocuments env files) = Inl m \<Longrightarrow>
   processDocumentsPipeline env files = abortedResult m"
  by (simp add: processDocumentsPipeline_def pipelineTry_def Let_def reachesS2_def
      documentsAfterS0_def updatedDocuments_def processStep2_def abortedResult_def)

lemma pipeline_aborted_S4:
  "reachesS2 env files \<Longrightarrow>
   processStep3 env (cardsOf (updatedDocuments env files)) (updatedDocuments env files) = Inr s3 \<Longrightarrow>
   processStep4 env (result s3) (cardsOf (updatedDocuments env files)) (updatedDocuments env files)
     = Inl m \<Longrightarrow>
   processDocumentsPipeline env files = abortedResult m"
  by (simp add: processDocumentsPipeline_def pipelineTry_def Let_def reachesS2_def
      documentsAfterS0_def updatedDocuments_def processStep2_def abortedResult_def)

lemma pipeline_completed:
  "reachesS2 env files \<Longrightarrow>
   processStep3 env (cardsOf (updatedDocuments env files)) (updatedDocuments env files) = Inr s3 \<Longrightarrow>
   processStep4 env (result s3) (cardsOf (updatedDocuments env files)) (updatedDocuments env files)
     = Inr s4 \<Longrightarrow>
   saveResults env (updatedDocuments env files) (result s3) (result s4) = None \<Longrightarrow>
   processDocumentsPipeline env files =
     \<lparr>documents = updatedDocuments env files,
      caseCards = cardsOf (updatedDocuments env files),
      reviewSkeleton = Some (result s3), review = result s4,
      costStatistics =
        Some \<lparr>steps =
                [fanOutStats 0 stepName0 ''x-ai/grok-4.1-fast'' (step0Results env files),
                 fanOutStats 1 stepName1 ''google/gemini-2.5-flash-lite-preview-09-2025''
                   (step1Results env (documentsAfterS0 env files)),
                 singleCallStats 3 stepName3 ''deepseek/deepseek-v3.2'' s3,
                 singleCallStats 4 stepName4 ''google/gemini-2.5-flash-preview-09-2025'' s4],
              total =
                fold addStep
                  [fanOutStats 0 stepName0 ''x-ai/grok-4.1-fast'' (step0Results env files),
                   fanOutStats 1 stepName1 ''google/gemini-2.5-flash-lite-preview-09-2025''
                     (step1Results env (documentsAfterS0 env files)),
                   singleCallStats 3 stepName3 ''deepseek/deepseek-v3.2'' s3,
                   singleCallStats 4 stepName4 ''google/gemini-2.5-flash-preview-09-2025'' s4]
                  zeroTotals\<rparr>,
      error = None\<rparr>"
  by (simp add: processDocumentsPipeline_def pipelineTry_def Let_def reachesS2_def
      documentsAfterS0_def updatedDocuments_def processStep2_def)

lemma processStep3_error:
  "cards \<noteq> [] \<Longrightarrow> processStep3 env cards docs = Inl m \<Longrightarrow> \<exists>c. m = SkeletonError c"
  by (auto simp: processStep3_def split: sum.splits)

lemma processStep4_error:
  "processStep4 env sk cards docs = Inl m \<Longrightarrow> \<exists>c. m = ReviewError c"
  by (auto simp: processStep4_def split: sum.splits)

lemma fanOutStats_fields [simp]:
  "step (fanOutStats n name m rs) = n"
  "calls (fanOutStats n name m rs) = length rs"
  "stepName (fanOutStats n name m rs) = name"
  "model (fanOutStats n name m rs) = Some m"
proof -
  have *: "\<And>st. step (fold addCall rs st) = step st \<and> calls (fold addCall rs st) = calls st \<and>
       stepName (fold addCall rs st) = stepName st \<and> model (fold addCall rs st) = model st"
    by (induction rs) (simp_all add: addCall_def)
  show "step (fanOutStats n name m rs) = n" "calls (fanOutStats n name m rs) = length rs"
    "stepName (fanOutStats n name m rs) = name" "model (fanOutStats n name m rs) = Some m"
    by (simp_all add: fanOutStats_def *)
qed

text \<open>
  C3. When stage 0 fails for every document of the batch, the run returns an empty review, no
  case cards, the error of the first early return, and cost statistics whose only step is
  the entry of stage 0 (with one call counted per document) and whose total has the tokens
  and the cost of that entry.
\<close>

theorem C3_all_failed:
  "(\<forall>i<length files. isl (step0Try env i (upload.fileName (files ! i)) (buffer (files ! i)))) \<longrightarrow>
   review (processDocumentsPipeline env files) = [] \<and>
   caseCards (processDocumentsPipeline env files) = [] \<and>
   error (processDocumentsPipeline env files) = Some AllDocumentsFailed \<and>
   (\<exists>cs st. costStatistics (processDocumentsPipeline env files) = Some cs \<and> steps cs = [st] \<and>
      step st = 0 \<and> calls st = length files \<and>
      tokens (total cs) = tokens st \<and> totals.cost (total cs) = totals.cost st)"
proof
  assume "\<forall>i<length files. isl (step0Try env i (upload.fileName (files ! i)) (buffer (files ! i)))"
  then have "\<not> list_ex usable (documentsAfterS0 env files)"
    by (simp add: usable_after_S0)
  then show "review (processDocumentsPipeline env files) = [] \<and>
   caseCards (processDocumentsPipeline env files) = [] \<and>
   error (processDocumentsPipeline env files) = Some AllDocumentsFailed \<and>
   (\<exists>cs st. costStatistics (processDocumentsPipeline env files) = Some cs \<and> steps cs = [st] \<and>
      step st = 0 \<and> calls st = length files \<and>
      tokens (total cs) = tokens st \<and> totals.cost (total cs) = totals.cost st)"
    by (simp add: processDocumentsPipeline_def pipelineTry_def Let_def documentsAfterS0_def)
qed

lemma demo_broken:
  "isl (step0Try (demoEnv allAnswering) 0 (upload.fileName (brokenFiles ! 0)) (buffer (brokenFiles ! 0)))"
  "isl (step0Try (demoEnv allAnswering) 1 (upload.fileName (brokenFiles ! 1)) (buffer (brokenFiles ! 1)))"
  by code_simp+

theorem C3_all_failed_witness:
  "isl (step0Try (demoEnv allAnswering) 0 (upload.fileName (brokenFiles ! 0)) (buffer (brokenFiles ! 0))) \<and>
   isl (step0Try (demoEnv allAnswering) 1 (upload.fileName (brokenFiles ! 1)) (buffer (brokenFiles ! 1))) \<and>
   review (processDocumentsPipeline (demoEnv allAnswering) brokenFiles) = [] \<and>
   caseCards (processDocumentsPipeline (demoEnv allAnswering) brokenFiles) = [] \<and>
   error (processDocumentsPipeline (demoEnv allAnswering) brokenFiles) = Some AllDocumentsFailed \<and>
   (\<exists>cs st. costStatistics (processDocumentsPipeline (demoEnv allAnswering) brokenFiles) = Some cs \<and>
      steps cs = [st] \<and> step st = 0 \<and> calls st = 2 \<and>
      tokens (total cs) = tokens st \<and> totals.cost (total cs) = totals.cost st)"
proof -
  have l: "length brokenFiles = 2" by (simp add: brokenFiles_def)
  have "\<forall>i<length brokenFiles.
      isl (step0Try (demoEnv allAnswering) i (upload.fileName (brokenFiles ! i)) (buffer (brokenFiles ! i)))"
    using demo_broken by (simp add: l numeral_2_eq_2 All_less_Suc)
  then show ?thesis
    using C3_all_failed [of brokenFiles "demoEnv allAnswering"] demo_broken l by simp
qed


lemma filter_nth_position:
  assumes "i < length xs" "P (xs ! i)"
  shows "length (filter P (take i xs)) < length (filter P xs)"
    and "filter P xs ! length (filter P (take i xs)) = xs ! i"
proof -
  have "xs = take i xs @ xs ! i # drop (Suc i) xs"
    using assms(1) by (simp add: id_take_nth_drop)
  then have "filter P xs = filter P (take i xs) @ xs ! i # filter P (drop (Suc i) xs)"
    using assms(2) by (metis filter.simps(2) filter_append)
  then show "length (filter P (take i xs)) < length (filter P xs)"
    and "filter P xs ! length (filter P (take i xs)) = xs ! i"
    by (simp_all add: nth_append)
qed

lemma find_map_option: "find P (map f xs) = map_option f (find (P \<circ> f) xs)"
  by (induction xs) simp_all

lemma nth_mergeByName:
  assumes "j < length docs"
  shows "mergeByName docs (map result (step1Results env docs)) ! j =
     (case find (\<lambda>(k, d). DocumentProcessingResult.fileName d =
                    DocumentProcessingResult.fileName (docs ! j))
             (enumerate 0 (filter usable docs)) of
        Some (k, d) \<Rightarrow> result (processStep1 env k d)
      | None \<Rightarrow> docs ! j)"
proof -
  have "find (\<lambda>d. DocumentProcessingResult.fileName d = n) (map result (step1Results env docs)) =
        map_option (\<lambda>(k, d). result (processStep1 env k d))
          (find (\<lambda>(k, d). DocumentProcessingResult.fileName d = n)
             (enumerate 0 (filter usable docs)))" for n
    by (simp add: step1Results_def find_map_option comp_def case_prod_unfold)
  then show ?thesis
    using assms by (simp add: mergeByName_def case_prod_unfold split: option.splits)
qed



lemma pipelineTry_documents:
  "pipelineTry env files = Inr r \<Longrightarrow>
   documents r =
     (if list_ex usable (documentsAfterS0 env files) then updatedDocuments env files
      else documentsAfterS0 env files)"
  by (auto simp: pipelineTry_def Let_def documentsAfterS0_def updatedDocuments_def
      split: if_splits sum.splits option.splits)

lemma documents_not_aborted:
  "\<not> aborted env files \<Longrightarrow>
   documents (processDocumentsPipeline env files) =
     (if list_ex usable (documentsAfterS0 env files) then updatedDocuments env files
      else documentsAfterS0 env files)"
  using pipelineTry_documents [of env files]
  by (cases "pipelineTry env files") (simp_all add: aborted_def processDocumentsPipeline_def)

lemma length_documentsAfterS0 [simp]: "length (documentsAfterS0 env files) = length files"
  by (simp add: documentsAfterS0_def)


lemma nth_documentsAfterS0:
  "i < length files \<Longrightarrow>
   documentsAfterS0 env files ! i =
     result (processDocumentStep0 env i (upload.fileName (files ! i)) (buffer (files ! i)))"
  by (simp add: documentsAfterS0_def nth_step0Results)













lemma nth_documents_merged:
  assumes "\<not> aborted env files" "list_ex usable (documentsAfterS0 env files)" "j < length files"
  shows "documents (processDocumentsPipeline env files) ! j =
     (case find (\<lambda>(k, d). DocumentProcessingResult.fileName d = upload.fileName (files ! j))
             (enumerate 0 (filter usable (documentsAfterS0 env files))) of
        Some (k, d) \<Rightarrow> result (processStep1 env k d)
      | None \<Rightarrow> documentsAfterS0 env files ! j)"
proof -
  have "DocumentProcessingResult.fileName (documentsAfterS0 env files ! j) =
      upload.fileName (files ! j)"
    using assms(3) by (simp add: nth_documentsAfterS0)
  then show ?thesis
    using assms nth_mergeByName [of j "documentsAfterS0 env files" env]
    by (simp add: documents_not_aborted updatedDocuments_def)
qed

lemma first_survivor_before:
  assumes "i < length docs" "usable (docs ! i)"
  shows "\<exists>k d. find (\<lambda>(k, d). DocumentProcessingResult.fileName d =
                       DocumentProcessingResult.fileName (docs ! i))
                (enumerate 0 (filter usable docs)) = Some (k, d) \<and>
           k \<le> length (filter usable (take i docs))"
proof -
  define ys where "ys = enumerate 0 (filter usable docs)"
  define ki where "ki = length (filter usable (take i docs))"
  define Q :: "nat \<times> DocumentProcessingResult \<Rightarrow> bool"
    where "Q = (\<lambda>(k, d). DocumentProcessingResult.fileName d =
                       DocumentProcessingResult.fileName (docs ! i))"
  have ki: "ki < length ys" and yk: "ys ! ki = (ki, docs ! i)"
    using filter_nth_position [of i docs usable] assms
    by (simp_all add: ys_def ki_def nth_enumerate_eq)
  have m: "Q (ys ! ki)"
    by (simp add: yk Q_def)
  have "ys ! ki \<in> set ys"
    using ki by simp
  then have "\<exists>x. x \<in> set ys \<and> Q x"
    using m by blast
  then have "find Q ys \<noteq> None"
    by (simp only: find_None_iff not_not)
  then obtain x where f: "find Q ys = Some x"
    by auto
  then obtain n where n: "n < length ys" "x = ys ! n" "\<forall>j<n. \<not> Q (ys ! j)"
    unfolding find_Some_iff by blast
  have "\<not> ki < n" using n(3) m by blast
  moreover have "fst x = n" using n(1,2) by (simp add: ys_def nth_enumerate_eq)
  ultimately have "find Q ys = Some (fst x, snd x) \<and> fst x \<le> ki"
    using f by (cases x) auto
  then show ?thesis
    unfolding ys_def ki_def Q_def by blast
qed

text \<open>
  C10 (amended). In a run that reaches the merge (some document passed stage 0) and is not
  aborted:
  \<^item> every output position holds the result of the first stage 1 call whose document has
    the file name of that position, and its own stage 0 record when no document of that
    name passed stage 0;
  \<^item> so when two documents have the same file name and the earlier one passed stage 0, both
    positions hold the same record, the result of a stage 1 call made no later than the
    earlier document's own: the later document's own outcome is not what is returned.
\<close>

theorem C10_merge_by_file_name:
  "(\<not> aborted env files \<and> list_ex usable (documentsAfterS0 env files) \<and> j < length files \<longrightarrow>
      documents (processDocumentsPipeline env files) ! j =
        (case find (\<lambda>(k, d). DocumentProcessingResult.fileName d = upload.fileName (files ! j))
                (enumerate 0 (filter usable (documentsAfterS0 env files))) of
           Some (k, d) \<Rightarrow> result (processStep1 env k d)
         | None \<Rightarrow> documentsAfterS0 env files ! j)) \<and>
   (\<not> aborted env files \<and> i < j \<and> j < length files \<and>
    upload.fileName (files ! i) = upload.fileName (files ! j) \<and>
    usable (documentsAfterS0 env files ! i) \<longrightarrow>
      (\<exists>k d. k \<le> length (filter usable (take i (documentsAfterS0 env files))) \<and>
         find (\<lambda>(k, d). DocumentProcessingResult.fileName d = upload.fileName (files ! j))
           (enumerate 0 (filter usable (documentsAfterS0 env files))) = Some (k, d) \<and>
         documents (processDocumentsPipeline env files) ! j = result (processStep1 env k d) \<and>
         documents (processDocumentsPipeline env files) ! i = result (processStep1 env k d)))"
proof -
  have c2: "\<exists>k d. k \<le> length (filter usable (take i (documentsAfterS0 env files))) \<and>
         find (\<lambda>(k, d). DocumentProcessingResult.fileName d = upload.fileName (files ! j))
           (enumerate 0 (filter usable (documentsAfterS0 env files))) = Some (k, d) \<and>
         documents (processDocumentsPipeline env files) ! j = result (processStep1 env k d) \<and>
         documents (processDocumentsPipeline env files) ! i = result (processStep1 env k d)"
    if h: "\<not> aborted env files \<and> i < j \<and> j < length files \<and>
      upload.fileName (files ! i) = upload.fileName (files ! j) \<and>
      usable (documentsAfterS0 env files ! i)"
  proof -
    let ?docs = "documentsAfterS0 env files"
    have i: "i < length ?docs" using h by simp
    have ex: "list_ex usable ?docs"
      using h i by (auto simp: list_ex_iff)
    have name: "DocumentProcessingResult.fileName (?docs ! i) = upload.fileName (files ! j)"
      using h by (simp add: nth_documentsAfterS0)
    obtain k d where kd:
      "find (\<lambda>(k, d). DocumentProcessingResult.fileName d = upload.fileName (files ! j))
         (enumerate 0 (filter usable ?docs)) = Some (k, d)"
      "k \<le> length (filter usable (take i ?docs))"
      using first_survivor_before [of i ?docs] i h name by auto
    have "documents (processDocumentsPipeline env files) ! j = result (processStep1 env k d)"
      using nth_documents_merged [of env files j] h ex kd by simp
    moreover have "documents (processDocumentsPipeline env files) ! i = result (processStep1 env k d)"
      using nth_documents_merged [of env files i] h ex kd by simp
    ultimately show ?thesis using kd by blast
  qed
  show ?thesis
    using nth_documents_merged [of env files j] c2 by blast
qed

text \<open>
  C10 as stated fails when the earlier of two namesakes did not pass stage 0: the only
  stage 1 result of that name is the later document's own, so its outcome (case number
  \<open>A-1\<close>) is returned at both positions, and it is the earlier document's outcome (its
  conversion error) that is lost.
\<close>

theorem C10_first_namesake_failed_counterexample:
  "upload.fileName (namesakes ! 0) = upload.fileName (namesakes ! 1) \<and>
   map caseNumber (documentsAfterS0 (demoEnv numbered) namesakes) = [None, Some (JStr ''A-1'')] \<and>
   map DocumentProcessingResult.error (documentsAfterS0 (demoEnv numbered) namesakes) =
     [Some (ConversionError (Raw ''not a docx file'')), None] \<and>
   map caseNumber (documents (processDocumentsPipeline (demoEnv numbered) namesakes)) =
     [Some (JStr ''A-1''), Some (JStr ''A-1'')] \<and>
   map DocumentProcessingResult.error
     (documents (processDocumentsPipeline (demoEnv numbered) namesakes)) = [None, None]"
  by code_simp

lemma demo_twins:
  "\<not> aborted (demoEnv numbered) twins"
  "usable (documentsAfterS0 (demoEnv numbered) twins ! 0)"
  "list_ex usable (documentsAfterS0 (demoEnv numbered) twins)"
  "caseNumber (documentsAfterS0 (demoEnv numbered) twins ! 1) = Some (JStr ''A-1'')"
  "find (\<lambda>(k, d). DocumentProcessingResult.fileName d = upload.fileName (twins ! 1))
     (enumerate 0 (filter usable (documentsAfterS0 (demoEnv numbered) twins))) =
   Some (0, documentsAfterS0 (demoEnv numbered) twins ! 0)"
  "caseNumber (result (processStep1 (demoEnv numbered) 0
      (documentsAfterS0 (demoEnv numbered) twins ! 0))) = Some (JStr [])"
  unfolding aborted_def by code_simp+

theorem C10_merge_by_file_name_witness:
  "\<not> aborted (demoEnv numbered) twins \<and>
   upload.fileName (twins ! 0) = upload.fileName (twins ! 1) \<and>
   usable (documentsAfterS0 (demoEnv numbered) twins ! 0) \<and>
   caseNumber (documentsAfterS0 (demoEnv numbered) twins ! 1) = Some (JStr ''A-1'') \<and>
   documents (processDocumentsPipeline (demoEnv numbered) twins) ! 1 =
     result (processStep1 (demoEnv numbered) 0 (documentsAfterS0 (demoEnv numbered) twins ! 0)) \<and>
   documents (processDocumentsPipeline (demoEnv numbered) twins) ! 0 =
     result (processStep1 (demoEnv numbered) 0 (documentsAfterS0 (demoEnv numbered) twins ! 0)) \<and>
   caseNumber (documents (processDocumentsPipeline (demoEnv numbered) twins) ! 1) = Some (JStr [])"
proof -
  have t: "length twins = 2" "upload.fileName (twins ! 0) = upload.fileName (twins ! 1)"
    by (simp_all add: twins_def)
  show ?thesis
    using C10_merge_by_file_name [where env = "demoEnv numbered" and files = twins
        and i = 0 and j = 1] demo_twins t
    by auto
qed

text \<open>
  C1 (amended). When a run reaches stage 3 and stage 3 fails, or stage 3 succeeds and
  stage 4 fails, the pipeline returns the result of its \<open>catch\<close> block: the error field
  carries the message of the failed stage (the skeleton or review prefix before the cause),
  and everything else is empty: no documents, no case cards, no review, and cost statistics
  with no steps and a zero total.
\<close>

theorem C1_stage_failure_aborts:
  "(reachesS2 env files \<and>
    processStep3 env (cardsOf (updatedDocuments env files)) (updatedDocuments env files) = Inl m \<longrightarrow>
      (\<exists>c. m = SkeletonError c) \<and>
      processDocumentsPipeline env files =
        \<lparr>documents = [], caseCards = [], reviewSkeleton = None, review = [],
         costStatistics = Some \<lparr>steps = [], total = zeroTotals\<rparr>, error = Some m\<rparr>) \<and>
   (reachesS2 env files \<and>
    processStep3 env (cardsOf (updatedDocuments env files)) (updatedDocuments env files) = Inr s3 \<and>
    processStep4 env (result s3) (cardsOf (updatedDocuments env files)) (updatedDocuments env files)
      = Inl m \<longrightarrow>
      (\<exists>c. m = ReviewError c) \<and>
      processDocumentsPipeline env files =
        \<lparr>documents = [], caseCards = [], reviewSkeleton = None, review = [],
         costStatistics = Some \<lparr>steps = [], total = zeroTotals\<rparr>, error = Some m\<rparr>)"
  using pipeline_aborted_S3 [of env files m] pipeline_aborted_S4 [of env files s3 m]
    processStep3_error [of "cardsOf (updatedDocuments env files)" env "updatedDocuments env files" m]
    processStep4_error [of env "result s3" "cardsOf (updatedDocuments env files)"
      "updatedDocuments env files" m]
  by (auto simp: abortedResult_def reachesS2_def)

text \<open>
  C1 as stated fails: three documents are processed, stage 0 is billed 1200 tokens for each
  of the two that convert, stage 3 fails, and the result has no documents and no cost steps.
\<close>

theorem C1_costs_and_documents_dropped_counterexample:
  "length threeFiles = 3 \<and>
   reachesS2 (demoEnv skeletonFailing) threeFiles \<and>
   map (totalTokens \<circ> StageOutput.usage) (step0Results (demoEnv skeletonFailing) threeFiles) =
     [1200, 0, 1200] \<and>
   error (processDocumentsPipeline (demoEnv skeletonFailing) threeFiles) =
     Some (SkeletonError (InvocationError (Raw ''Internal server error''))) \<and>
   documents (processDocumentsPipeline (demoEnv skeletonFailing) threeFiles) = [] \<and>
   costStatistics (processDocumentsPipeline (demoEnv skeletonFailing) threeFiles) =
     Some \<lparr>steps = [], total = zeroTotals\<rparr>"
  by code_simp

lemma demo_skeletonFailing:
  "reachesS2 (demoEnv skeletonFailing) threeFiles"
  "processStep3 (demoEnv skeletonFailing)
     (cardsOf (updatedDocuments (demoEnv skeletonFailing) threeFiles))
     (updatedDocuments (demoEnv skeletonFailing) threeFiles) =
   Inl (SkeletonError (InvocationError (Raw ''Internal server error'')))"
  by code_simp+

lemma demo_reviewFailing:
  "reachesS2 (demoEnv reviewFailing) threeFiles"
  "processStep3 (demoEnv reviewFailing)
     (cardsOf (updatedDocuments (demoEnv reviewFailing) threeFiles))
     (updatedDocuments (demoEnv reviewFailing) threeFiles) =
   Inr \<lparr>result = JObj [(''legalQuestion'', JStr ''q'')],
        StageOutput.cost =
          \<lparr>inputCost = 3 / 4000, cachedInputCost = 1 / 20000, outputCost = 1 / 500,
           totalCost = 7 / 2500\<rparr>,
        usage =
          \<lparr>promptTokens = 1000, completionTokens = 200, cachedTokens = Some 400,
           totalTokens = 1200\<rparr>\<rparr>"
  "processStep4 (demoEnv reviewFailing) (JObj [(''legalQuestion'', JStr ''q'')])
     (cardsOf (updatedDocuments (demoEnv reviewFailing) threeFiles))
     (updatedDocuments (demoEnv reviewFailing) threeFiles) =
   Inl (ReviewError (InvocationError (Raw ''Internal server error'')))"
  by code_simp+

theorem C1_stage_failure_aborts_witness:
  "reachesS2 (demoEnv skeletonFailing) threeFiles \<and>
   processDocumentsPipeline (demoEnv skeletonFailing) threeFiles =
     \<lparr>documents = [], caseCards = [], reviewSkeleton = None, review = [],
      costStatistics = Some \<lparr>steps = [], total = zeroTotals\<rparr>,
      error = Some (SkeletonError (InvocationError (Raw ''Internal server error'')))\<rparr> \<and>
   reachesS2 (demoEnv reviewFailing) threeFiles \<and>
   processDocumentsPipeline (demoEnv reviewFailing) threeFiles =
     \<lparr>documents = [], caseCards = [], reviewSkeleton = None, review = [],
      costStatistics = Some \<lparr>steps = [], total = zeroTotals\<rparr>,
      error = Some (ReviewError (InvocationError (Raw ''Internal server error'')))\<rparr>"
  using C1_stage_failure_aborts [where env = "demoEnv skeletonFailing" and files = threeFiles
      and m = "SkeletonError (InvocationError (Raw ''Internal server error''))"]
    C1_stage_failure_aborts [where env = "demoEnv reviewFailing" and files = threeFiles
      and m = "ReviewError (InvocationError (Raw ''Internal server error''))"
      and ?s3.0 = "\<lparr>result = JObj [(''legalQuestion'', JStr ''q'')],
        StageOutput.cost =
          \<lparr>inputCost = 3 / 4000, cachedInputCost = 1 / 20000, outputCost = 1 / 500,
           totalCost = 7 / 2500\<rparr>,
        usage =
          \<lparr>promptTokens = 1000, completionTokens = 200, cachedTokens = Some 400,
           totalTokens = 1200\<rparr>\<rparr>"]
    demo_skeletonFailing demo_reviewFailing
  by simp

text \<open>
  C5 (amended). In a run that reaches stage 2 (neither early return is taken): when the run
  completes, the cost statistics have exactly four steps, numbered 0, 1, 3 and 4 in this
  order, with as many calls counted as there are input documents (stage 0), documents that
  passed stage 0 (stage 1), and one each (stages 3 and 4); stage 2 has no entry. When the
  run is aborted after stage 2, the cost statistics have no steps at all.
\<close>

theorem C5_steps_after_S2:
  "reachesS2 env files \<longrightarrow>
     (\<exists>cs. costStatistics (processDocumentsPipeline env files) = Some cs \<and>
        (if error (processDocumentsPipeline env files) = None
         then map step (steps cs) = [0, 1, 3, 4] \<and>
              map calls (steps cs) =
                [length files, length (filter usable (documentsAfterS0 env files)), 1, 1]
         else steps cs = []))"
proof
  assume r: "reachesS2 env files"
  let ?cards = "cardsOf (updatedDocuments env files)"
  let ?docs = "updatedDocuments env files"
  show "\<exists>cs. costStatistics (processDocumentsPipeline env files) = Some cs \<and>
        (if error (processDocumentsPipeline env files) = None
         then map step (steps cs) = [0, 1, 3, 4] \<and>
              map calls (steps cs) =
                [length files, length (filter usable (documentsAfterS0 env files)), 1, 1]
         else steps cs = [])"
  proof (cases "processStep3 env ?cards ?docs")
    case (Inl m)
    then show ?thesis
      using pipeline_aborted_S3 [OF r] by (simp add: abortedResult_def)
  next
    case s3: (Inr s3)
    show ?thesis
    proof (cases "processStep4 env (result s3) ?cards ?docs")
      case (Inl m)
      then show ?thesis
        using pipeline_aborted_S4 [OF r s3] by (simp add: abortedResult_def)
    next
      case s4: (Inr s4)
      show ?thesis
      proof (cases "saveResults env ?docs (result s3) (result s4)")
        case None
        then show ?thesis
          using pipeline_completed [OF r s3 s4]
          by (simp add: singleCallStats_def step1Results_def)
      next
        case (Some m)
        then show ?thesis
          using r s3 s4
          by (simp add: processDocumentsPipeline_def pipelineTry_def Let_def reachesS2_def
              documentsAfterS0_def updatedDocuments_def processStep2_def)
      qed
    qed
  qed
qed

text \<open>
  C5 as stated fails: a run that completes has the steps 0, 1, 3 and 4, and none for
  stage 2.
\<close>

theorem C5_no_stage2_entry_counterexample:
  "reachesS2 (demoEnv allAnswering) threeFiles \<and>
   error (processDocumentsPipeline (demoEnv allAnswering) threeFiles) = None \<and>
   map_option (map step \<circ> steps)
     (costStatistics (processDocumentsPipeline (demoEnv allAnswering) threeFiles)) =
     Some [0, 1, 3, 4]"
  by code_simp

lemma demo_allAnswering:
  "reachesS2 (demoEnv allAnswering) threeFiles"
  "error (processDocumentsPipeline (demoEnv allAnswering) threeFiles) = None"
  "error (processDocumentsPipeline (demoEnv skeletonFailing) threeFiles) =
     Some (SkeletonError (InvocationError (Raw ''Internal server error'')))"
  "length (filter usable (documentsAfterS0 (demoEnv allAnswering) threeFiles)) = 2"
  "length threeFiles = 3"
  by code_simp+

theorem C5_steps_after_S2_witness:
  "reachesS2 (demoEnv allAnswering) threeFiles \<and>
   (\<exists>cs. costStatistics (processDocumentsPipeline (demoEnv allAnswering) threeFiles) = Some cs \<and>
      map step (steps cs) = [0, 1, 3, 4] \<and> map calls (steps cs) = [3, 2, 1, 1]) \<and>
   reachesS2 (demoEnv skeletonFailing) threeFiles \<and>
   (\<exists>cs. costStatistics (processDocumentsPipeline (demoEnv skeletonFailing) threeFiles) = Some cs \<and>
      steps cs = [])"
  using C5_steps_after_S2 [of "demoEnv allAnswering" threeFiles]
    C5_steps_after_S2 [of "demoEnv skeletonFailing" threeFiles]
    demo_allAnswering demo_skeletonFailing(1)
  by simp

text \<open>
  C2 fails on the code. Two documents pass stage 0; the first (\<open>a.docx\<close>, case number
  \<open>A-1\<close>) fails in stage 1, the second (\<open>b.docx\<close>, no case number) gets a card. The cards
  are numbered from 0 without the gaps of the documents, and the labels are read from
  \<open>documents[index]\<close>: the only card, made from \<open>b.docx\<close>, is labelled \<open>a.docx\<close> and \<open>A-1\<close>.
\<close>

theorem C2_misattributed_labels:
  "map DocumentProcessingResult.fileName
     (documents (processDocumentsPipeline (demoEnv firstCardFailing) twoFiles)) =
     [''a.docx'', ''b.docx''] \<and>
   map caseNumber (documents (processDocumentsPipeline (demoEnv firstCardFailing) twoFiles)) =
     [Some (JStr ''A-1''), Some (JStr [])] \<and>
   map caseCard (documents (processDocumentsPipeline (demoEnv firstCardFailing) twoFiles)) =
     [None, Some (JObj [(''summary'', JStr ''s'')])] \<and>
   caseCards (processDocumentsPipeline (demoEnv firstCardFailing) twoFiles) =
     [JObj [(''summary'', JStr ''s'')]] \<and>
   cardsData (caseCards (processDocumentsPipeline (demoEnv firstCardFailing) twoFiles))
     (documents (processDocumentsPipeline (demoEnv firstCardFailing) twoFiles)) =
     [JObj [(''index'', JNum 1), (''fileName'', JStr ''a.docx''),
            (''caseNumber'', JStr ''A-1''), (''summary'', JStr ''s'')]]"
  by code_simp

section \<open>Properties of the structured-output extraction\<close>

lemma isSpace_simps [simp]:
  "\<not> isSpace (CHR 0x60)" "\<not> isSpace CHR ''{''" "\<not> isSpace CHR ''}''" "isSpace CHR ''\<newline>''"
  by (simp_all add: isSpace_def)

lemma dropWhile_isSpace_fence [simp]: "dropWhile isSpace (fence @ xs) = fence @ xs"
  by (simp add: fence_def)

lemma trimEnd_after_fence: "trimEnd (xs @ fence @ ys) = xs @ fence @ trimEnd ys"
proof -
  have "rev (xs @ fence @ ys) = rev ys @ CHR 0x60 # (CHR 0x60 # CHR 0x60 # rev xs)"
    by (simp add: fence_def)
  then have "dropWhile isSpace (rev (xs @ fence @ ys)) =
      dropWhile isSpace (rev ys) @ CHR 0x60 # (CHR 0x60 # CHR 0x60 # rev xs)"
    by (simp only: dropWhile_append3 isSpace_simps not_False_eq_True)
  then show ?thesis
    by (simp add: trimEnd_def fence_def)
qed

lemma trimStart_before_fence: "trimStart (xs @ fence @ ys) = trimStart xs @ fence @ ys"
  by (simp add: trimStart_def fence_def dropWhile_append3)

lemma trim_around_fences:
  "trim (pre @ fenceJson @ mid @ fence @ post) =
     trimStart pre @ fenceJson @ mid @ fence @ trimEnd post"
proof -
  have "trimStart (pre @ fenceJson @ mid @ fence @ post) =
        trimStart pre @ fenceJson @ mid @ fence @ post"
    using trimStart_before_fence [of pre "''json'' @ mid @ fence @ post"]
    by (simp add: fenceJson_def)
  moreover have "trimEnd ((trimStart pre @ fenceJson @ mid) @ fence @ post) =
        (trimStart pre @ fenceJson @ mid) @ fence @ trimEnd post"
    by (rule trimEnd_after_fence)
  ultimately show ?thesis by (simp add: trim_def)
qed

lemma fence_no_border:
  assumes "fenceJson = xs @ us" "xs \<noteq> []" "us \<noteq> []"
  shows "\<not> prefix us fenceJson"
  using assms
  by (auto simp: fenceJson_def fence_def append_eq_Cons_conv Cons_eq_append_conv)

lemma no_fenceJson_at_overlap:
  assumes "\<not> sublist fenceJson (c # p)"
  shows "\<not> prefix fenceJson ((c # p) @ fenceJson @ rest)"
proof
  assume "prefix fenceJson ((c # p) @ fenceJson @ rest)"
  then consider "prefix fenceJson (c # p)"
    | us where "fenceJson = (c # p) @ us" "prefix us (fenceJson @ rest)"
    unfolding prefix_append by blast
  then show False
  proof cases
    case 1
    then show ?thesis using assms by (simp add: prefix_imp_sublist)
  next
    case 2
    have "us \<noteq> []"
    proof
      assume "us = []"
      then have "prefix fenceJson (c # p)" using 2(1) by simp
      then show False using assms by (simp add: prefix_imp_sublist)
    qed
    moreover have "length us \<le> length fenceJson" using 2(1) by (metis length_append le_add2)
    then have "prefix us fenceJson"
      using 2(2) by (metis prefix_length_prefix prefixI)
    ultimately show ?thesis using fence_no_border [OF 2(1)] by simp
  qed
qed

lemma no_fence_after_spaces:
  assumes "b \<noteq> []" "last b = CHR ''}''" "\<not> sublist fence b"
  shows "\<not> prefix fence (dropWhile isSpace (b @ rest))"
proof
  assume p: "prefix fence (dropWhile isSpace (b @ rest))"
  have l: "last b \<in> set b" using assms(1) by simp
  then have d: "dropWhile isSpace (b @ rest) = dropWhile isSpace b @ rest"
    using assms(2) by (intro dropWhile_append1 [of "last b"]) simp_all
  define t where "t = dropWhile isSpace b"
  have t1: "t \<noteq> []"
    using l assms(2) unfolding t_def
    by (auto simp: dropWhile_eq_Nil_conv intro!: bexI [of _ "CHR ''}''"])
  have "b = takeWhile isSpace b @ t"
    by (simp add: t_def)
  then have "last b = last t" "suffix t b"
    using t1 by (metis last_appendR, metis suffixI)
  then have t: "t \<noteq> []" "last t = CHR ''}''" "suffix t b"
    using t1 assms(2) by simp_all
  from p consider "prefix fence t" | us where "fence = t @ us"
    unfolding d t_def [symmetric] prefix_append by blast
  then show False
  proof cases
    case 1
    then have "sublist fence b"
      using t(3) by (meson prefix_imp_sublist sublist_order.order_trans suffix_imp_sublist)
    then show ?thesis using assms(3) by simp
  next
    case 2
    then have "last t \<in> set fence" using t(1) by (metis last_in_set set_append UnI1)
    then show ?thesis using t(2) by (simp add: fence_def)
  qed
qed

lemma lazyUntilFence_closing:
  assumes "b \<noteq> [] \<longrightarrow> last b = CHR ''}''" "\<not> sublist fence b"
  shows "lazyUntilFence (b @ CHR ''\<newline>'' # fence @ post) = Some b"
  using assms
proof (induction b)
  case Nil
  then show ?case by (simp add: fence_def)
next
  case (Cons c b)
  have n: "\<not> prefix fence (dropWhile isSpace ((c # b) @ CHR ''\<newline>'' # fence @ post))"
    using no_fence_after_spaces [of "c # b"] Cons.prems by simp
  have "b \<noteq> [] \<longrightarrow> last b = CHR ''}''" using Cons.prems(1) by auto
  moreover have "\<not> sublist fence b"
    using Cons.prems(2) by (meson sublist_Cons_right)
  ultimately have "lazyUntilFence (b @ CHR ''\<newline>'' # fence @ post) = Some b"
    by (rule Cons.IH)
  then show ?case using n by simp
qed

lemma matchFenced_first_block:
  assumes "\<not> sublist fenceJson pre" "j \<noteq> []" "hd j = CHR ''{''" "last j = CHR ''}''"
    "\<not> sublist fence j"
  shows "matchFenced fenceJson (pre @ fenceJson @ CHR ''\<newline>'' # j @ CHR ''\<newline>'' # fence @ post)
     = Some j"
  using assms(1)
proof (induction pre)
  case Nil
  have h: "dropWhile isSpace (CHR ''\<newline>'' # j @ CHR ''\<newline>'' # fence @ post) =
      j @ CHR ''\<newline>'' # fence @ post"
    using assms(2,3) by (cases j) simp_all
  have "lazyUntilFence (j @ CHR ''\<newline>'' # fence @ post) = Some j"
    using lazyUntilFence_closing [of j post] assms by simp
  then show ?case
    using h by (simp add: fenceJson_def fence_def)
next
  case (Cons c pre)
  have "\<not> prefix fenceJson ((c # pre) @ fenceJson @ CHR ''\<newline>'' # j @ CHR ''\<newline>'' # fence @ post)"
    using no_fenceJson_at_overlap [OF Cons.prems] .
  moreover have "\<not> sublist fenceJson pre"
    using Cons.prems by (meson sublist_Cons_right)
  ultimately show ?case using Cons.IH by simp
qed

lemma trim_object_text:
  assumes "j \<noteq> []" "hd j = CHR ''{''" "last j = CHR ''}''"
  shows "trim j = j"
proof -
  have "trimStart j = j" using assms(1,2) by (cases j) (simp_all add: trimStart_def)
  moreover have "trimEnd j = j"
    using assms(1,3) by (cases j rule: rev_cases) (simp_all add: trimEnd_def)
  ultimately show ?thesis by (simp add: trim_def)
qed

lemma orWhole_object_text:
  assumes "j \<noteq> []" "hd j = CHR ''{''" "last j = CHR ''}''"
  shows "orWhole j = j"
proof -
  have "dropWhile (\<lambda>c. c \<noteq> CHR ''{'') j = j" using assms(1,2) by (cases j) simp_all
  moreover have "rev (dropWhile (\<lambda>c. c \<noteq> CHR ''}'') (rev j)) = j"
    using assms(1,3) by (cases j rule: rev_cases) simp_all
  ultimately show ?thesis using assms(1) by (simp add: orWhole_def braceSpan_def)
qed

lemma step0JsonText_fenced:
  assumes "\<not> includesStr pre fenceJson" "j \<noteq> []" "hd j = CHR ''{''" "last j = CHR ''}''"
    "\<not> includesStr j fence"
  shows "step0JsonText (pre @ fencedJson j @ post) = j"
proof -
  let ?t = "trimStart pre @ fenceJson @ CHR ''\<newline>'' # j @ CHR ''\<newline>'' # fence @ trimEnd post"
  have t: "trim (pre @ fencedJson j @ post) = ?t"
    using trim_around_fences [of pre "CHR ''\<newline>'' # j @ [CHR ''\<newline>'']" post]
    by (simp add: fencedJson_def)
  have "suffix (trimStart pre) pre"
    by (simp add: trimStart_def suffix_dropWhile)
  then have "\<not> sublist fenceJson (trimStart pre)"
    using assms(1) unfolding includesStr_def
    by (meson sublist_order.order_trans suffix_imp_sublist)
  then have m: "matchFenced fenceJson ?t = Some j"
    using matchFenced_first_block [of "trimStart pre" j "trimEnd post"] assms
    by (simp add: includesStr_def)
  have i: "includesStr ?t fenceJson"
    unfolding includesStr_def by (metis sublist_appendI)
  show ?thesis
    using t m i trim_object_text [OF assms(2,3,4)] orWhole_object_text [OF assms(2,3,4)]
    by (simp add: step0JsonText_def Let_def)
qed

text \<open>
  C7 (amended). Let \<open>j\<close> be a JSON text of an object (it begins with an opening brace, ends
  with a closing brace, and \<open>JSON.parse\<close> reads it as the object) in which no three
  backticks stand in a row, and let the prose before the block contain no opener of a json
  block. Then from the answer "prose, the block of \<open>j\<close> fenced as json, prose" stage 0 cuts
  out exactly \<open>j\<close>, and its parse step returns the object.
\<close>

theorem C7_fenced_object_extracted:
  "\<not> includesStr pre fenceJson \<and> j \<noteq> [] \<and> hd j = CHR ''{'' \<and> last j = CHR ''}'' \<and>
   \<not> includesStr j fence \<and> JSON_parse env j = Inr (JObj kvs) \<longrightarrow>
     step0JsonText (pre @ fencedJson j @ post) = j \<and>
     step0Parse env (pre @ fencedJson j @ post) = Inr (j, JObj kvs)"
  using step0JsonText_fenced [of pre j post]
  by (simp add: step0Parse_def Let_def)

text \<open>
  C7 as stated fails. An object with three backticks inside a string is cut at those
  backticks, and the rest does not parse. And prose that itself shows a json block before
  the real one makes the extraction return the object of the prose.
\<close>

theorem C7_backticks_or_earlier_block_counterexample:
  \<open>JSON_parse (demoEnv allAnswering) ''{"a":"```"}'' = Inr (JObj [(''a'', JStr ''```'')]) \<and>
   step0Parse (demoEnv allAnswering) (fencedJson ''{"a":"```"}'') =
     Inl (MalformedOutput (Raw ''Unexpected token'') ''{"a":"'') \<and>
   JSON_parse (demoEnv allAnswering) ''{"summary":"s"}'' = Inr (JObj [(''summary'', JStr ''s'')]) \<and>
   step0Parse (demoEnv allAnswering)
     (''Compare ```json {} ``` with '' @ fencedJson ''{"summary":"s"}'' @ '' (final)'') =
     Inr (''{}'', JObj [])\<close>
  by code_simp

lemma demo_object_text:
  \<open>\<not> includesStr ''Here is the position: '' fenceJson\<close>
  \<open>\<not> includesStr ''{"summary":"s"}'' fence\<close>
  \<open>JSON_parse (demoEnv allAnswering) ''{"summary":"s"}'' = Inr (JObj [(''summary'', JStr ''s'')])\<close>
  unfolding includesStr_def by code_simp+

theorem C7_fenced_object_extracted_witness:
  \<open>\<not> includesStr ''Here is the position: '' fenceJson \<and>
   \<not> includesStr ''{"summary":"s"}'' fence \<and>
   step0Parse (demoEnv allAnswering)
     (''Here is the position: '' @ fencedJson ''{"summary":"s"}'' @ '' Let me know {if} needed.'') =
     Inr (''{"summary":"s"}'', JObj [(''summary'', JStr ''s'')])\<close>
  using C7_fenced_object_extracted [where pre = "''Here is the position: ''"
      and j = \<open>''{"summary":"s"}''\<close> and post = "'' Let me know {if} needed.''"
      and env = "demoEnv allAnswering" and kvs = "[(''summary'', JStr ''s'')]"]
    demo_object_text
  by simp

end
